theory Spec2Isabelle
  imports Complex_Main "HOL-Library.Char_ord" "HOL-Library.List_Lexorder"
begin

section \<open>Lequel: language identification based on trigrams (src/Lequel.cpp)\<close>

subsection \<open>Data model\<close>

text \<open>
  The only failure of the source is the exception \<open>std::range_error\<close> that
  \<open>std::wstring_convert\<close> throws when a conversion fails (the converter of line 29 is
  built without error strings). No function of the file catches it.
\<close>

datatype error = RangeError

text \<open>
  Modelled from the spec: the types \<open>Text\<close>, \<open>TrigramProfile\<close>, \<open>LanguageProfile\<close> and
  \<open>LanguageProfiles\<close> are declared in Lequel.h, which is not among the sources. The spec
  (section 3) has a Text as an ordered sequence of lines, a TrigramProfile as a mapping
  from trigrams to frequencies with unique keys, a LanguageProfile as a language code
  paired with a profile and LanguageProfiles as an ordered collection of them. The
  source's comment at line 58 names the mapping a map with logarithmic search, that is a
  \<open>std::map<std::string, float>\<close>: it is iterated in ascending key order, strings
  compared byte by byte. A profile is an association list kept in that order.

  The frequencies are \<open>float\<close>s. Their arithmetic is not fixed here: a profile holds
  values of any type \<open>'f\<close> with a zero, a one, an addition, a multiplication, a division
  and a comparison, of which no law is assumed, so that what is proved holds for
  binary32 arithmetic with its rounding, infinities and NaN. \<open>sqrtf\<close>, \<open>std::to_string\<close>
  on a float and the cast \<open>(int)\<close> are parameters of the functions that call them.
\<close>

type_synonym Text = "string list"

type_synonym 'f TrigramProfile = "(string \<times> 'f) list"

record 'f LanguageProfile =
  languageCode :: string
  trigramProfile :: "'f TrigramProfile"

type_synonym 'f LanguageProfiles = "'f LanguageProfile list"

text \<open>A \<open>std::wstring\<close>: the list of its \<open>wchar_t\<close> values.\<close>

type_synonym wstring = "nat list"

subsection \<open>The operations of std::map the source calls\<close>

text \<open>\<open>m.find(k) != m.end()\<close> is \<open>find_tp k m \<noteq> None\<close>.\<close>

definition find_tp :: "string \<Rightarrow> 'f TrigramProfile \<Rightarrow> 'f option" where
  "find_tp k m = map_of m k"

text \<open>
  \<open>m.insert({k, v})\<close>: a key that is present keeps its value and the map stays as it
  is; a new key takes its place in the order of the keys.
\<close>

fun ins_tp :: "string \<Rightarrow> 'f \<Rightarrow> 'f TrigramProfile \<Rightarrow> 'f TrigramProfile" where
  "ins_tp k v [] = [(k, v)]"
| "ins_tp k v ((k', v') # m) =
     (if k < k' then (k, v) # (k', v') # m else (k', v') # ins_tp k v m)"

definition insert_tp :: "string \<Rightarrow> 'f \<Rightarrow> 'f TrigramProfile \<Rightarrow> 'f TrigramProfile" where
  "insert_tp k v m = (if find_tp k m \<noteq> None then m else ins_tp k v m)"

text \<open>
  \<open>m[k]\<close> first inserts \<open>k\<close> with the value \<open>0.F\<close> when it is absent (\<open>index_tp\<close> is the
  map after that), then gives a reference to the value: \<open>at_tp\<close> reads through it and
  \<open>assign_tp\<close> writes through it.
\<close>

definition index_tp :: "string \<Rightarrow> 'f::zero TrigramProfile \<Rightarrow> 'f TrigramProfile" where
  "index_tp k m = insert_tp k 0 m"

definition at_tp :: "string \<Rightarrow> 'f::zero TrigramProfile \<Rightarrow> 'f" where
  "at_tp k m = (case find_tp k m of Some v \<Rightarrow> v | None \<Rightarrow> 0)"

fun assign_tp :: "string \<Rightarrow> ('f \<Rightarrow> 'f) \<Rightarrow> 'f TrigramProfile \<Rightarrow> 'f TrigramProfile" where
  "assign_tp k f [] = []"
| "assign_tp k f ((k', v) # m) =
     (if k = k' then (k', f v) # m else (k', v) # assign_tp k f m)"

subsection \<open>The conversions of std::wstring_convert\<close>

text \<open>
  \<open>std::wstring_convert<std::codecvt_utf8_utf16<wchar_t>>\<close> converts between UTF-8 bytes
  and UTF-16: each \<open>wchar_t\<close> of the wide string holds one UTF-16 code unit, so a code
  point above U+FFFF takes two of them (a surrogate pair). It belongs to the C++ standard
  library, not to the repository. It is modelled as libstdc++ (GCC 14) implements it:
  the facet \<open>codecvt_utf8_utf16<wchar_t>\<close> converts as far as it can and answers \<open>ok\<close>,
  \<open>partial\<close> or \<open>error\<close>, and \<open>from_bytes\<close> and \<open>to_bytes\<close> throw \<open>std::range_error\<close>
  on \<open>error\<close> only; on \<open>partial\<close> they return what was converted.
  \<^item> \<open>from_bytes\<close>: an ill-formed sequence (a byte that cannot start a sequence, a byte
    that is not the continuation the sequence needs, an overlong form, an encoded
    surrogate, a value above U+10FFFF) is an error; a sequence that is well-formed as far
    as it goes and is cut off by the end of the input is partial, so the input is
    converted up to it.
  \<^item> \<open>to_bytes\<close>: a low surrogate with no high surrogate before it, a high surrogate
    followed by something else and a value above U+10FFFF are errors; a high surrogate
    that is the last code unit is partial, so the code units before it are converted.
\<close>

datatype 'a outcome = Whole 'a | CutOff | IllFormed

definition is_cont :: "nat \<Rightarrow> bool" where
  "is_cont b \<longleftrightarrow> 128 \<le> b \<and> b < 192"

definition cons_cp :: "nat \<Rightarrow> error + nat list \<Rightarrow> error + nat list" where
  "cons_cp c r = (case r of Inl e \<Rightarrow> Inl e | Inr cs \<Rightarrow> Inr (c # cs))"

text \<open>
  One continuation byte: its six bits are appended to the bits \<open>acc\<close> read so far.
\<close>

definition cont :: "nat \<Rightarrow> nat list \<Rightarrow> (nat \<times> nat list) outcome" where
  "cont acc bs =
     (case bs of
        [] \<Rightarrow> CutOff
      | c # r \<Rightarrow> if is_cont c then Whole (acc * 64 + (c - 128), r) else IllFormed)"

text \<open>
  The code point at the head of UTF-8 bytes, with the bytes after it (the library's
  \<open>read_utf8_code_point\<close>): \<open>c1\<close> is the first byte and \<open>bs\<close> are the bytes that follow.
  The second byte of a sequence of three or four is checked before the later ones are
  looked for, so an overlong form or a surrogate is ill-formed even when it is cut off.
\<close>

definition read_utf8_code_point :: "nat \<Rightarrow> nat list \<Rightarrow> (nat \<times> nat list) outcome" where
  "read_utf8_code_point c1 bs =
     (if c1 < 128 then Whole (c1, bs)
      else if c1 < 194 then IllFormed
      else if c1 < 224 then cont (c1 - 192) bs
      else if c1 < 240 then
        (case bs of
           [] \<Rightarrow> CutOff
         | c2 # r \<Rightarrow>
             if \<not> is_cont c2 then IllFormed
             else if c1 = 224 \<and> c2 < 160 then IllFormed
             else if c1 = 237 \<and> 160 \<le> c2 then IllFormed
             else cont ((c1 - 224) * 64 + (c2 - 128)) r)
      else if c1 < 245 then
        (case bs of
           [] \<Rightarrow> CutOff
         | c2 # r \<Rightarrow>
             if \<not> is_cont c2 then IllFormed
             else if c1 = 240 \<and> c2 < 144 then IllFormed
             else if c1 = 244 \<and> 144 \<le> c2 then IllFormed
             else (case cont ((c1 - 240) * 64 + (c2 - 128)) r of
                     Whole (acc, r') \<Rightarrow> cont acc r'
                   | CutOff \<Rightarrow> CutOff
                   | IllFormed \<Rightarrow> IllFormed))
      else IllFormed)"

lemma cont_shorter: "cont acc bs = Whole (cp, r) \<Longrightarrow> length r < length bs"
  by (auto simp: cont_def split: list.splits if_splits)

lemma read_shorter: "read_utf8_code_point c1 bs = Whole (cp, r) \<Longrightarrow> length r \<le> length bs"
  by (auto simp: read_utf8_code_point_def split: if_splits list.splits outcome.splits
      dest!: cont_shorter)

text \<open>UTF-8 bytes to code points, as far as the input goes.\<close>

function utf8_decode :: "nat list \<Rightarrow> error + nat list" where
  "utf8_decode [] = Inr []"
| "utf8_decode (c1 # bs) =
     (case read_utf8_code_point c1 bs of
        Whole (cp, r) \<Rightarrow> cons_cp cp (utf8_decode r)
      | CutOff \<Rightarrow> Inr []
      | IllFormed \<Rightarrow> Inl RangeError)"
  by pat_completeness auto
termination
  by (relation "measure length") (auto dest: read_shorter simp: less_Suc_eq_le)

text \<open>A code point as UTF-16 code units.\<close>

definition utf16_units :: "nat \<Rightarrow> nat list" where
  "utf16_units cp =
     (if cp < 65536 then [cp]
      else [55296 + (cp - 65536) div 1024, 56320 + (cp - 65536) mod 1024])"

definition from_bytes :: "string \<Rightarrow> error + wstring" where
  "from_bytes s =
     (case utf8_decode (map of_char s) of
        Inl e \<Rightarrow> Inl e
      | Inr cps \<Rightarrow> Inr (concat (map utf16_units cps)))"

text \<open>
  UTF-16 code units to code points, as far as the input goes. A \<open>wchar_t\<close> has 32 bits
  here, and a value from U+10000 to U+10FFFF in one code unit is taken as that code
  point.
\<close>

fun utf16_decode :: "wstring \<Rightarrow> error + nat list" where
  "utf16_decode [] = Inr []"
| "utf16_decode (c # us) =
     (if 55296 \<le> c \<and> c \<le> 56319 then
        (case us of
           [] \<Rightarrow> Inr []
         | c2 # r \<Rightarrow>
             if 56320 \<le> c2 \<and> c2 \<le> 57343
             then cons_cp (65536 + (c - 55296) * 1024 + (c2 - 56320)) (utf16_decode r)
             else Inl RangeError)
      else if 56320 \<le> c \<and> c \<le> 57343 then Inl RangeError
      else if 1114111 < c then Inl RangeError
      else cons_cp c (utf16_decode us))"

text \<open>A code point as UTF-8 bytes.\<close>

definition utf8_encode :: "nat \<Rightarrow> nat list" where
  "utf8_encode cp =
     (if cp < 128 then [cp]
      else if cp < 2048 then [192 + cp div 64, 128 + cp mod 64]
      else if cp < 65536 then
        [224 + cp div 4096, 128 + (cp div 64) mod 64, 128 + cp mod 64]
      else [240 + cp div 262144, 128 + (cp div 4096) mod 64,
            128 + (cp div 64) mod 64, 128 + cp mod 64])"

definition to_bytes :: "wstring \<Rightarrow> error + string" where
  "to_bytes ws =
     (case utf16_decode ws of
        Inl e \<Rightarrow> Inl e
      | Inr cps \<Rightarrow> Inr (map char_of (concat (map utf8_encode cps))))"

subsection \<open>buildTrigramProfile (lines 27-71)\<close>

text \<open>
  Lines 39-40: a line that ends in a carriage return loses that one character.
\<close>

definition strip_cr :: "string \<Rightarrow> string" where
  "strip_cr line =
     (if length line > 0 \<and> line ! (length line - 1) = CHR 0x0D
      then take (length line - 1) line else line)"

text \<open>
  Line 46 stores the \<open>size_t\<close> length of the wide string in an \<open>int\<close>: the low 32 bits,
  read as two's complement.
\<close>

definition int_of_size :: "nat \<Rightarrow> int" where
  "int_of_size n = (int n + 2147483648) mod 4294967296 - 2147483648"

text \<open>
  Line 50 applies the C function \<open>::tolower\<close> to every code unit. In the C locale, which
  the program never leaves in this file, it maps the letters A-Z to a-z and leaves every
  other value as it is.
\<close>

definition tolower :: "nat \<Rightarrow> nat" where
  "tolower c = (if 65 \<le> c \<and> c \<le> 90 then c + 32 else c)"

text \<open>
  Lines 58-67: a trigram that is a key has \<open>1.0F\<close> added to its value through
  \<open>operator[]\<close>, another one is inserted with the value \<open>1.0F\<close>.
\<close>

definition add_trigram :: "string \<Rightarrow> 'f::{zero,one,plus} TrigramProfile \<Rightarrow> 'f TrigramProfile" where
  "add_trigram trigram textProfile =
     (if find_tp trigram textProfile \<noteq> None
      then assign_tp trigram (\<lambda>v. v + 1) (index_tp trigram textProfile)
      else insert_tp trigram 1 textProfile)"

text \<open>
  Lines 52-68, the loop over \<open>i\<close>: \<open>substr(i, 3)\<close> is \<open>take 3 (drop i s)\<close>
  (\<open>i\<close> never exceeds the length, so \<open>substr\<close> does not throw).
\<close>

fun trigram_loop :: "wstring \<Rightarrow> nat list \<Rightarrow> 'f::{zero,one,plus} TrigramProfile
    \<Rightarrow> error + 'f TrigramProfile" where
  "trigram_loop unicodeString [] textProfile = Inr textProfile"
| "trigram_loop unicodeString (i # is) textProfile =
     (case to_bytes (take 3 (drop i unicodeString)) of
        Inl e \<Rightarrow> Inl e
      | Inr trigram \<Rightarrow> trigram_loop unicodeString is (add_trigram trigram textProfile))"

text \<open>Lines 39-68, the body of the loop over the lines.\<close>

definition process_line :: "string \<Rightarrow> 'f::{zero,one,plus} TrigramProfile
    \<Rightarrow> error + 'f TrigramProfile" where
  "process_line line0 textProfile =
     (case from_bytes (strip_cr line0) of
        Inl e \<Rightarrow> Inl e
      | Inr unicodeString \<Rightarrow>
          (let unicodeStringLength = int_of_size (length unicodeString)
           in if unicodeStringLength < 3 then Inr textProfile
              else trigram_loop (map tolower unicodeString)
                     [0 ..< nat (unicodeStringLength - 2)] textProfile))"

fun lines_loop :: "Text \<Rightarrow> 'f::{zero,one,plus} TrigramProfile \<Rightarrow> error + 'f TrigramProfile" where
  "lines_loop [] textProfile = Inr textProfile"
| "lines_loop (line # rest) textProfile =
     (case process_line line textProfile of
        Inl e \<Rightarrow> Inl e
      | Inr textProfile' \<Rightarrow> lines_loop rest textProfile')"

definition buildTrigramProfile :: "Text \<Rightarrow> error + 'f::{zero,one,plus} TrigramProfile" where
  "buildTrigramProfile txt = lines_loop txt []"

text \<open>\<open>buildLanguageProfile\<close> (lines 192-195) only calls \<open>buildTrigramProfile\<close>.\<close>

definition buildLanguageProfile :: "Text \<Rightarrow> error + 'f::{zero,one,plus} TrigramProfile" where
  "buildLanguageProfile corpus = buildTrigramProfile corpus"

subsection \<open>normalizeTrigramProfile (lines 78-95)\<close>

text \<open>
  The first loop adds the squares to \<open>sumSquares\<close> in the order of the map, the second
  divides every value by \<open>sqrtf(sumSquares)\<close>. Nothing is tested before the division.
\<close>

definition normalizeTrigramProfile :: "('f \<Rightarrow> 'f) \<Rightarrow> 'f::{zero,plus,times,inverse} TrigramProfile
    \<Rightarrow> 'f TrigramProfile" where
  "normalizeTrigramProfile sqrtf profile =
     (let sumSquares = foldl (\<lambda>s (k, v). s + v * v) 0 profile;
          squareRoot = sqrtf sumSquares
      in map (\<lambda>(k, v). (k, v / squareRoot)) profile)"

subsection \<open>getCosineSimilarity (lines 104-118)\<close>

text \<open>
  Both profiles are passed by reference to non-constant maps, and line 114 reads the
  language profile with \<open>operator[]\<close>, which can insert. The loop therefore carries the
  language profile along with \<open>sumProduct\<close>, and the function returns the score together
  with both profiles as the call leaves them.
\<close>

fun cosine_loop :: "'f::{zero,plus,times} TrigramProfile \<Rightarrow> 'f \<Rightarrow> 'f TrigramProfile
    \<Rightarrow> 'f \<times> 'f TrigramProfile" where
  "cosine_loop [] sumProduct languageProfile = (sumProduct, languageProfile)"
| "cosine_loop ((trigram, v) # rest) sumProduct languageProfile =
     (if find_tp trigram languageProfile \<noteq> None
      then cosine_loop rest
             (sumProduct + v * at_tp trigram (index_tp trigram languageProfile))
             (index_tp trigram languageProfile)
      else cosine_loop rest sumProduct languageProfile)"

definition getCosineSimilarity :: "'f::{zero,plus,times} TrigramProfile \<Rightarrow> 'f TrigramProfile
    \<Rightarrow> 'f \<times> 'f TrigramProfile \<times> 'f TrigramProfile" where
  "getCosineSimilarity textProfile languageProfile =
     (case cosine_loop textProfile 0 languageProfile of
        (sumProduct, languageProfile') \<Rightarrow> (sumProduct, textProfile, languageProfile'))"

subsection \<open>identifyLanguage (lines 127-152)\<close>

text \<open>
  Line 137 copies each catalog entry into the loop variable, and the call of line 139
  works on that copy and on the local text profile. The loop carries the text profile,
  \<open>maxCosineSimilarity\<close> and \<open>similarLenguajeCode\<close>. The diagnostic output of line 140
  is left out.
\<close>

fun identify_loop :: "'f::{zero,plus,times,ord} LanguageProfiles \<Rightarrow> 'f TrigramProfile \<Rightarrow> 'f
    \<Rightarrow> string \<Rightarrow> 'f TrigramProfile \<times> 'f \<times> string" where
  "identify_loop [] trigramProfileText maxCosineSimilarity similarLenguajeCode =
     (trigramProfileText, maxCosineSimilarity, similarLenguajeCode)"
| "identify_loop (languageProfile # rest) trigramProfileText maxCosineSimilarity
       similarLenguajeCode =
     (case getCosineSimilarity trigramProfileText (trigramProfile languageProfile) of
        (cosineSimilarity, trigramProfileText', copy') \<Rightarrow>
          if maxCosineSimilarity < cosineSimilarity
          then identify_loop rest trigramProfileText' cosineSimilarity
                 (languageCode languageProfile)
          else identify_loop rest trigramProfileText' maxCosineSimilarity
                 similarLenguajeCode)"

text \<open>
  The result is what the call returns or throws, paired with the catalog as the call
  leaves it (the catalog is passed by reference to a non-constant list).
\<close>

definition identifyLanguage :: "('f \<Rightarrow> 'f) \<Rightarrow> ('f \<Rightarrow> string) \<Rightarrow> Text
    \<Rightarrow> 'f::{zero,one,plus,times,inverse,ord} LanguageProfiles
    \<Rightarrow> (error + string) \<times> 'f LanguageProfiles" where
  "identifyLanguage sqrtf to_string txt languages =
     (case buildTrigramProfile txt of
        Inl e \<Rightarrow> (Inl e, languages)
      | Inr trigramProfileText \<Rightarrow>
          (case identify_loop languages
                  (normalizeTrigramProfile sqrtf trigramProfileText) 0 ''---'' of
             (trigramProfileText', maxCosineSimilarity, similarLenguajeCode) \<Rightarrow>
               (Inr (if 0 < maxCosineSimilarity
                     then similarLenguajeCode @ '' ('' @ to_string maxCosineSimilarity @ '')''
                     else similarLenguajeCode),
                languages)))"

subsection \<open>addLanguage (lines 160-184)\<close>

text \<open>
  Modelled from the spec: \<open>getTextFromFile\<close>, \<open>writeCSV\<close> and the type \<open>CSVData\<close> are
  declared in headers that are not among the sources. The spec (section 6) has the text
  source as \<open>readText(path) -> (Text, success)\<close> and the persistence as
  \<open>writeRows(path, rows) -> success\<close>, each row one trigram and its integer count
  rendered as text. Both are parameters of \<open>addLanguage\<close>; a row is the list of its
  fields. The result lists the calls of \<open>writeCSV\<close> that were made, with their arguments.
\<close>

type_synonym CSVData = "string list list"

text \<open>\<open>std::to_string\<close> on an \<open>int\<close>: the decimal digits, after a minus sign if negative.\<close>

fun digits :: "nat \<Rightarrow> string" where
  "digits n = (if n < 10 then [char_of (48 + n)] else digits (n div 10) @ [char_of (48 + n mod 10)])"

declare digits.simps [simp del]

definition to_string_int :: "int \<Rightarrow> string" where
  "to_string_int i = (if i < 0 then CHR ''-'' # digits (nat (- i)) else digits (nat i))"

definition addLanguage :: "(string \<Rightarrow> bool \<times> Text) \<Rightarrow> (string \<Rightarrow> CSVData \<Rightarrow> bool)
    \<Rightarrow> ('f::{zero,one,plus} \<Rightarrow> int) \<Rightarrow> string
    \<Rightarrow> (error + bool) \<times> (string \<times> CSVData) list" where
  "addLanguage getTextFromFile writeCSV int_of_float path =
     (case getTextFromFile path of
        (False, corpus) \<Rightarrow> (Inr False, [])
      | (True, corpus) \<Rightarrow>
          (case buildLanguageProfile corpus of
             Inl e \<Rightarrow> (Inl e, [])
           | Inr corpusProfile \<Rightarrow>
               if corpusProfile \<noteq> [] then
                 (let csvTrigrams =
                        map (\<lambda>(trigram, v). [trigram, to_string_int (int_of_float v)])
                          corpusProfile
                  in (Inr (writeCSV ''resources/trigrams/gua.csv'' csvTrigrams),
                      [(''resources/trigrams/gua.csv'', csvTrigrams)]))
               else (Inr False, [])))"

section \<open>Notions the claims are stated with\<close>

subsection \<open>Trigram windows and occurrence counts\<close>







text \<open>
  The value of a key that was counted \<open>n\<close> times: \<open>1.0F\<close> from the insertion, and
  \<open>1.0F\<close> added for each of the other \<open>n - 1\<close> occurrences. \<open>bump\<close> is one such step
  on the entry of a key.
\<close>

definition count_float :: "nat \<Rightarrow> 'f::{one,plus}" where
  "count_float n = ((\<lambda>v. v + 1) ^^ (n - 1)) 1"



subsection \<open>Case folding of a line\<close>


subsection \<open>Well-formed UTF-8\<close>












subsection \<open>The products a similarity adds up\<close>

text \<open>
  The products \<open>textProfile[k] * languageProfile[k]\<close> for those keys \<open>k\<close> of the text
  profile that are keys of the language profile too, in the order of the text profile.
\<close>

definition common_products :: "'f::times TrigramProfile \<Rightarrow> 'f TrigramProfile \<Rightarrow> 'f list" where
  "common_products textProfile languageProfile =
     map (\<lambda>(k, v). v * the (map_of languageProfile k))
       (filter (\<lambda>(k, v). map_of languageProfile k \<noteq> None) textProfile)"

subsection \<open>Scores and the reported match\<close>

text \<open>
  The score of a catalog entry against a text profile; the string that reports a match,
  the code followed by the score in parentheses; and one turn of the loop that tracks
  the best match, on the pair of \<open>maxCosineSimilarity\<close> and \<open>similarLenguajeCode\<close>.
\<close>

definition score :: "'f::{zero,plus,times} TrigramProfile \<Rightarrow> 'f LanguageProfile \<Rightarrow> 'f" where
  "score tp lp = fst (getCosineSimilarity tp (trigramProfile lp))"

definition reported :: "('f \<Rightarrow> string) \<Rightarrow> string \<Rightarrow> 'f \<Rightarrow> string" where
  "reported to_string code s = code @ '' ('' @ to_string s @ '')''"

definition best_step :: "'f::{zero,plus,times,ord} TrigramProfile \<Rightarrow> 'f \<times> string
    \<Rightarrow> 'f LanguageProfile \<Rightarrow> 'f \<times> string" where
  "best_step tp b lp = (if fst b < score tp lp then (score tp lp, languageCode lp) else b)"

subsection \<open>The rows of the CSV file\<close>

text \<open>One row per entry of the profile: the trigram, and its count cast to \<open>int\<close>.\<close>

definition csv_rows :: "('f \<Rightarrow> int) \<Rightarrow> 'f TrigramProfile \<Rightarrow> CSVData" where
  "csv_rows int_of_float profile = map (\<lambda>(k, v). [k, to_string_int (int_of_float v)]) profile"

section \<open>Facts about the model\<close>

subsection \<open>The map operations\<close>







lemma index_tp_present: "find_tp k m \<noteq> None \<Longrightarrow> index_tp k m = m"
  by (simp add: index_tp_def insert_tp_def)



subsection \<open>Counting trigrams\<close>







lemma int_of_size_small: "n < 2147483648 \<Longrightarrow> int_of_size n = int n"
  by (simp add: int_of_size_def)







lemma count_float_exact: "0 < n \<Longrightarrow> (count_float n :: 'a::semiring_1) = of_nat n"
proof (induction n)
  case 0
  then show ?case by simp
next
  case (Suc n)
  then show ?case
    by (cases n) (simp_all add: count_float_def add.commute)
qed


subsection \<open>Case folding and the conversion\<close>





















subsection \<open>The keys of a profile are folded\<close>











subsection \<open>The conversion and the table of well-formed sequences\<close>









subsection \<open>The similarity loop\<close>

lemma at_tp_present: "find_tp k m = Some w \<Longrightarrow> at_tp k (index_tp k m) = w"
  by (simp add: at_tp_def index_tp_present)

lemma cosine_loop_eq:
  "cosine_loop t s l = (foldl (+) s (common_products t l), l)"
proof (induction t arbitrary: s)
  case Nil
  then show ?case by (simp add: common_products_def)
next
  case (Cons a t)
  obtain k v where a: "a = (k, v)" by (cases a)
  show ?case
  proof (cases "find_tp k l")
    case None
    with Cons a show ?thesis by (simp add: common_products_def find_tp_def)
  next
    case (Some w)
    then have "index_tp k l = l" by (simp add: index_tp_present)
    with Cons a Some at_tp_present [OF Some] show ?thesis
      by (simp add: common_products_def find_tp_def)
  qed
qed

lemma getCosineSimilarity_eq:
  "getCosineSimilarity t l = (foldl (+) 0 (common_products t l), t, l)"
  by (simp add: getCosineSimilarity_def cosine_loop_eq)

lemma common_products_cong:
  assumes "\<forall>k\<in>fst ` set t. map_of l k = map_of l' k"
  shows "common_products t l = common_products t l'"
proof -
  have eq: "map_of l k = map_of l' k" if "(k, v) \<in> set t" for k v
    using assms that by force
  have f: "filter (\<lambda>(k, v). map_of l k \<noteq> None) t = filter (\<lambda>(k, v). map_of l' k \<noteq> None) t"
    by (rule filter_cong) (auto simp: eq)
  have m: "map (\<lambda>(k, v). v * the (map_of l k)) (filter (\<lambda>(k, v). map_of l' k \<noteq> None) t)
      = map (\<lambda>(k, v). v * the (map_of l' k)) (filter (\<lambda>(k, v). map_of l' k \<noteq> None) t)"
    by (rule map_cong) (auto simp: eq)
  show ?thesis
    unfolding common_products_def f by (rule m)
qed

subsection \<open>The loop that tracks the best match\<close>

lemma identify_loop_eq:
  "identify_loop ls tp m c = (tp, foldl (best_step tp) (m, c) ls)"
  by (induction ls arbitrary: m c)
    (simp_all add: getCosineSimilarity_eq score_def best_step_def)

lemma identifyLanguage_eq:
  "buildTrigramProfile txt = Inr raw \<Longrightarrow>
   fst (identifyLanguage sqrtf to_string txt ls) =
     (case foldl (best_step (normalizeTrigramProfile sqrtf raw)) (0, ''---'') ls of
        (m, c) \<Rightarrow> Inr (if 0 < m then reported to_string c m else c))"
  by (simp add: identifyLanguage_def identify_loop_eq reported_def split: prod.splits)

lemma best_invariant:
  fixes tp :: "'f::{zero,plus,times,ord} TrigramProfile"
  assumes irrefl: "\<forall>x::'f. \<not> x < x"
    and trans: "\<forall>x y z::'f. x < y \<longrightarrow> y < z \<longrightarrow> x < z"
  shows "(foldl (best_step tp) (0, ''---'') ls = (0, ''---'')
            \<and> (\<forall>lp\<in>set ls. \<not> 0 < score tp lp))
       \<or> (\<exists>pre lp post. ls = pre @ lp # post
            \<and> foldl (best_step tp) (0, ''---'') ls = (score tp lp, languageCode lp)
            \<and> 0 < score tp lp
            \<and> (\<forall>x\<in>set ls. \<not> score tp lp < score tp x)
            \<and> (\<forall>x\<in>set pre. score tp x \<noteq> score tp lp))"
proof (induction ls rule: rev_induct)
  case Nil
  then show ?case by simp
next
  case (snoc l ls)
  let ?s = "score tp l"
  have step: "foldl (best_step tp) (0, ''---'') (ls @ [l])
      = best_step tp (foldl (best_step tp) (0, ''---'') ls) l"
    by simp
  from snoc show ?case
  proof (elim disjE conjE exE)
    assume st: "foldl (best_step tp) (0, ''---'') ls = (0, ''---'')"
      and none: "\<forall>lp\<in>set ls. \<not> 0 < score tp lp"
    have new: "foldl (best_step tp) (0, ''---'') (ls @ [l])
        = (if 0 < ?s then (?s, languageCode l) else (0, ''---''))"
      unfolding step st by (simp add: best_step_def)
    show ?thesis
    proof (cases "0 < ?s")
      case True
      have "\<forall>x\<in>set (ls @ [l]). \<not> ?s < score tp x"
        using none True irrefl trans by auto
      moreover have "\<forall>x\<in>set ls. score tp x \<noteq> ?s"
        using none True by auto
      ultimately have "ls @ [l] = ls @ l # []
            \<and> (if 0 < ?s then (?s, languageCode l) else (0, ''---'')) = (?s, languageCode l)
            \<and> 0 < ?s
            \<and> (\<forall>x\<in>set (ls @ [l]). \<not> ?s < score tp x)
            \<and> (\<forall>x\<in>set ls. score tp x \<noteq> ?s)"
        using True by simp
      then show ?thesis unfolding new by blast
    next
      case False
      have "(if 0 < ?s then (?s, languageCode l) else (0, ''---'')) = (0, ''---'')
            \<and> (\<forall>lp\<in>set (ls @ [l]). \<not> 0 < score tp lp)"
        using False none by simp
      then show ?thesis unfolding new by blast
    qed
  next
    fix pre lp post
    assume ls: "ls = pre @ lp # post"
      and st: "foldl (best_step tp) (0, ''---'') ls = (score tp lp, languageCode lp)"
      and pos: "0 < score tp lp"
      and mx: "\<forall>x\<in>set ls. \<not> score tp lp < score tp x"
      and fst: "\<forall>x\<in>set pre. score tp x \<noteq> score tp lp"
    have new: "foldl (best_step tp) (0, ''---'') (ls @ [l])
        = (if score tp lp < ?s then (?s, languageCode l) else (score tp lp, languageCode lp))"
      unfolding step st by (simp add: best_step_def)
    show ?thesis
    proof (cases "score tp lp < ?s")
      case True
      have "0 < ?s" using pos True trans by blast
      moreover have "\<forall>x\<in>set (ls @ [l]). \<not> ?s < score tp x"
        using mx True irrefl trans by auto
      moreover have "\<forall>x\<in>set ls. score tp x \<noteq> ?s"
        using mx True by auto
      ultimately have "ls @ [l] = ls @ l # []
            \<and> (if score tp lp < ?s then (?s, languageCode l)
                else (score tp lp, languageCode lp)) = (?s, languageCode l)
            \<and> 0 < ?s
            \<and> (\<forall>x\<in>set (ls @ [l]). \<not> ?s < score tp x)
            \<and> (\<forall>x\<in>set ls. score tp x \<noteq> ?s)"
        using True by simp
      then show ?thesis unfolding new by blast
    next
      case False
      have "ls @ [l] = pre @ lp # (post @ [l])
            \<and> (if score tp lp < ?s then (?s, languageCode l)
                else (score tp lp, languageCode lp)) = (score tp lp, languageCode lp)
            \<and> 0 < score tp lp
            \<and> (\<forall>x\<in>set (ls @ [l]). \<not> score tp lp < score tp x)
            \<and> (\<forall>x\<in>set pre. score tp x \<noteq> score tp lp)"
        using ls False pos mx fst by simp
      then show ?thesis unfolding new by blast
    qed
  qed
qed

lemma first_best:
  fixes tp :: "'f::{zero,plus,times,ord} TrigramProfile"
  assumes irrefl: "\<forall>x::'f. \<not> x < x"
    and trans: "\<forall>x y z::'f. x < y \<longrightarrow> y < z \<longrightarrow> x < z"
    and total: "\<forall>x y::'f. 0 < x \<longrightarrow> 0 < y \<longrightarrow> x < y \<or> x = y \<or> y < x"
    and ls: "ls = before @ entry # after"
    and pos: "0 < score tp entry"
    and best: "\<forall>x\<in>set ls. \<not> score tp entry < score tp x"
    and first: "\<forall>x\<in>set before. score tp x \<noteq> score tp entry"
  shows "foldl (best_step tp) (0, ''---'') ls = (score tp entry, languageCode entry)"
  using best_invariant [OF irrefl trans, of tp ls]
proof (elim disjE conjE exE)
  assume "\<forall>lp\<in>set ls. \<not> 0 < score tp lp"
  with ls pos show ?thesis by simp
next
  fix pre lp post
  assume d: "ls = pre @ lp # post"
    and st: "foldl (best_step tp) (0, ''---'') ls = (score tp lp, languageCode lp)"
    and p: "0 < score tp lp"
    and mx: "\<forall>x\<in>set ls. \<not> score tp lp < score tp x"
    and f: "\<forall>x\<in>set pre. score tp x \<noteq> score tp lp"
  have "entry \<in> set ls" unfolding ls by simp
  moreover have "lp \<in> set ls" unfolding d by simp
  ultimately have "\<not> score tp lp < score tp entry" "\<not> score tp entry < score tp lp"
    using mx best by blast+
  with total p pos have eq: "score tp lp = score tp entry" by blast
  let ?P = "\<lambda>x. score tp x \<noteq> score tp entry"
  have "takeWhile ?P ls = takeWhile ?P pre"
    unfolding d using eq by (simp add: takeWhile_tail)
  also have "\<dots> = pre"
    using f eq by simp
  finally have 1: "takeWhile ?P ls = pre" .
  have "takeWhile ?P ls = takeWhile ?P before"
    unfolding ls by (simp add: takeWhile_tail)
  also have "\<dots> = before"
    using first by simp
  finally have "pre = before" using 1 by simp
  with d ls have "before @ lp # post = before @ entry # after" by simp
  then have "lp = entry" by simp
  with st show ?thesis by simp
qed

lemma identifyLanguage_throws:
  fixes sqrtf :: "'f::{zero,one,plus,times,inverse,ord} \<Rightarrow> 'f"
  shows "(buildTrigramProfile txt :: error + 'f TrigramProfile) = Inl e \<Longrightarrow>
    identifyLanguage sqrtf to_string txt ls = (Inl e, ls)"
  by (simp add: identifyLanguage_def)

lemma two_entries_tie:
  fixes tp :: "'f::{zero,plus,times,ord} TrigramProfile"
  assumes irrefl: "\<forall>x::'f. \<not> x < x" and tie: "score tp l1 = score tp l2"
  shows "foldl (best_step tp) (0, ''---'') [l1, l2]
     = (if 0 < score tp l1 then (score tp l1, languageCode l1) else (0, ''---''))"
  using irrefl tie by (simp add: best_step_def)

subsection \<open>addLanguage\<close>

lemma csv_rows_nth:
  "n < length p \<Longrightarrow> csv_rows i p ! n = [fst (p ! n), to_string_int (i (snd (p ! n)))]"
  by (simp add: csv_rows_def split: prod.splits)

lemma addLanguage_eq:
  "addLanguage getTextFromFile writeCSV int_of_float path =
     (case getTextFromFile path of
        (False, corpus) \<Rightarrow> (Inr False, [])
      | (True, corpus) \<Rightarrow>
          (case buildTrigramProfile corpus of
             Inl e \<Rightarrow> (Inl e, [])
           | Inr p \<Rightarrow>
               if p = [] then (Inr False, [])
               else (Inr (writeCSV ''resources/trigrams/gua.csv'' (csv_rows int_of_float p)),
                     [(''resources/trigrams/gua.csv'', csv_rows int_of_float p)])))"
  by (simp add: addLanguage_def buildLanguageProfile_def csv_rows_def Let_def
      split: prod.splits sum.splits bool.splits)

subsection \<open>Evaluation on concrete inputs\<close>

lemmas conv_simps = strip_cr_def from_bytes_def cons_cp_def utf16_units_def is_cont_def
  read_utf8_code_point_def cont_def to_bytes_def utf8_encode_def char_of_eq_iff

lemmas map_simps = add_trigram_def find_tp_def insert_tp_def index_tp_def

lemma upt_0_1: "[0..<1] = [0::nat]"
  by (simp add: upt_rec)



lemma from_bytes_ab: "from_bytes (strip_cr ''ab'') = Inr [97, 98]"
  by (simp add: conv_simps)





lemma process_line_ab: "process_line ''ab'' p = Inr p"
  by (simp add: process_line_def from_bytes_ab int_of_size_small)










lemma from_bytes_abc: "from_bytes (strip_cr ''abc'') = Inr [97, 98, 99]"
  by (simp add: conv_simps)

lemma to_bytes_abc: "to_bytes [97, 98, 99] = Inr ''abc''"
  by (simp add: conv_simps)


lemma build_abc: "buildTrigramProfile [''abc''] = Inr [(''abc'', 1)]"
  by (simp add: buildTrigramProfile_def process_line_def from_bytes_abc int_of_size_small
      tolower_def to_bytes_abc map_simps upt_0_1)



lemma real_less_total: "\<forall>x y::real. 0 < x \<longrightarrow> 0 < y \<longrightarrow> x < y \<or> x = y \<or> y < x"
  by auto















lemma build_abc_FF: "buildTrigramProfile [''abc'', [CHR 0xFF]] = Inl RangeError"
  by (simp add: buildTrigramProfile_def process_line_def from_bytes_abc int_of_size_small
      tolower_def to_bytes_abc map_simps upt_0_1 conv_simps)






lemma normalize_abc: "normalizeTrigramProfile sqrt [(''abc'', 1 :: real)] = [(''abc'', 1)]"
  by (simp add: normalizeTrigramProfile_def)

lemma score_abc_abc:
  "score [(''abc'', 1 :: real)] \<lparr>languageCode = c, trigramProfile = [(''abc'', 1)]\<rparr> = 1"
  by (simp add: score_def getCosineSimilarity_eq common_products_def)

lemma score_abc_xyz:
  "score [(''abc'', 1 :: real)] \<lparr>languageCode = c, trigramProfile = [(''xyz'', 1)]\<rparr> = 0"
  by (simp add: score_def getCosineSimilarity_eq common_products_def)

lemma real_less_irrefl: "\<forall>x::real. \<not> x < x"
  by simp

lemma real_less_trans: "\<forall>x y z::real. x < y \<longrightarrow> y < z \<longrightarrow> x < z"
  by auto

lemma build_FF: "buildTrigramProfile [[CHR 0xFF]] = Inl RangeError"
  by (simp add: buildTrigramProfile_def process_line_def conv_simps)

lemma build_ab: "buildTrigramProfile [''ab''] = Inr []"
  by (simp add: buildTrigramProfile_def process_line_ab)

lemma digits_1: "digits (Suc 0) = ''1''"
  by (simp add: digits.simps char_of_eq_iff)

section \<open>The claims\<close>

subsection \<open>C1: the trigram windows of buildTrigramProfile\<close>




subsection \<open>C2: what getCosineSimilarity adds up\<close>

text \<open>
  C2. For every pair of profiles, \<open>getCosineSimilarity\<close> returns the sum, started at
  \<open>0.F\<close> and taken in the order of the text profile, of the products
  \<open>textProfile[k] * languageProfile[k]\<close> over exactly the keys of the text profile that
  are keys of the language profile. Keys that only the language profile has contribute
  nothing: two language profiles that agree on the keys of the text profile give the
  same score.
\<close>

theorem C2_cosine_sum:
  "fst (getCosineSimilarity textProfile languageProfile)
     = foldl (+) (0 :: 'f::{zero,plus,times}) (common_products textProfile languageProfile)
   \<and> ((\<forall>k\<in>fst ` set textProfile. map_of languageProfile k = map_of languageProfile' k)
        \<longrightarrow> fst (getCosineSimilarity textProfile languageProfile')
            = fst (getCosineSimilarity textProfile languageProfile))"
  using common_products_cong [of textProfile languageProfile languageProfile']
  by (auto simp: getCosineSimilarity_eq)

theorem C2_cosine_sum_witness:
  "common_products [(''abc'', 2 :: real), (''bcd'', 3), (''cde'', 5)] [(''abc'', 7), (''cde'', 11)]
     = [14, 55]
   \<and> fst (getCosineSimilarity [(''abc'', 2 :: real), (''bcd'', 3), (''cde'', 5)]
        [(''abc'', 7), (''cde'', 11)]) = 69
   \<and> fst (getCosineSimilarity [(''abc'', 2 :: real), (''bcd'', 3), (''cde'', 5)]
        [(''abc'', 7), (''cde'', 11), (''xyz'', 13)]) = 69"
  using C2_cosine_sum [of "[(''abc'', 2 :: real), (''bcd'', 3), (''cde'', 5)]"
      "[(''abc'', 7), (''cde'', 11)]" "[(''abc'', 7), (''cde'', 11), (''xyz'', 13)]"]
  by (simp add: common_products_def)

subsection \<open>C3: ties go to the earlier entry\<close>

text \<open>
  The comparison \<open><\<close> of floats is irreflexive and transitive, NaN included, and two
  floats above 0 are equal when neither is less than the other; the theorems on the
  best match assume no more of it.

  C3, as the code has it. For a text whose profile is built, \<open>identifyLanguage\<close> either
  returns the sentinel, and then no entry of the catalog has a score above 0, or
  reports an entry whose score is above 0 and below no score of the catalog, before
  which no entry has the same score: line 141 compares with a strict \<open>>\<close>, so an
  entry never replaces an earlier one that has the same score. So when several entries
  have the best score and it is above 0, the earliest of them is the one reported,
  whatever the entries after it. For a catalog \<open>[L1, L2]\<close> of two entries with the same
  score the result is the code of \<open>L1\<close> followed by the score when that score is above
  0, and the sentinel when it is not.
\<close>

theorem C3_tie_break:
  fixes sqrtf :: "'f::{zero,one,plus,times,inverse,ord} \<Rightarrow> 'f"
  assumes irrefl: "\<forall>x::'f. \<not> x < x"
    and trans: "\<forall>x y z::'f. x < y \<longrightarrow> y < z \<longrightarrow> x < z"
    and total: "\<forall>x y::'f. 0 < x \<longrightarrow> 0 < y \<longrightarrow> x < y \<or> x = y \<or> y < x"
    and built: "buildTrigramProfile txt = Inr raw"
  shows "((fst (identifyLanguage sqrtf to_string txt ls) = Inr ''---''
            \<and> (\<forall>lp\<in>set ls. \<not> 0 < score (normalizeTrigramProfile sqrtf raw) lp))
          \<or> (\<exists>pre lp post. ls = pre @ lp # post
               \<and> fst (identifyLanguage sqrtf to_string txt ls)
                   = Inr (reported to_string (languageCode lp)
                            (score (normalizeTrigramProfile sqrtf raw) lp))
               \<and> 0 < score (normalizeTrigramProfile sqrtf raw) lp
               \<and> (\<forall>x\<in>set ls. \<not> score (normalizeTrigramProfile sqrtf raw) lp
                       < score (normalizeTrigramProfile sqrtf raw) x)
               \<and> (\<forall>x\<in>set pre. score (normalizeTrigramProfile sqrtf raw) x
                       \<noteq> score (normalizeTrigramProfile sqrtf raw) lp)))
       \<and> (ls = before @ entry # after
           \<and> 0 < score (normalizeTrigramProfile sqrtf raw) entry
           \<and> (\<forall>x\<in>set ls. \<not> score (normalizeTrigramProfile sqrtf raw) entry
                   < score (normalizeTrigramProfile sqrtf raw) x)
           \<and> (\<forall>x\<in>set before. score (normalizeTrigramProfile sqrtf raw) x
                   \<noteq> score (normalizeTrigramProfile sqrtf raw) entry)
           \<longrightarrow> fst (identifyLanguage sqrtf to_string txt ls)
               = Inr (reported to_string (languageCode entry)
                        (score (normalizeTrigramProfile sqrtf raw) entry)))
       \<and> (score (normalizeTrigramProfile sqrtf raw) la
             = score (normalizeTrigramProfile sqrtf raw) lb
           \<longrightarrow> fst (identifyLanguage sqrtf to_string txt [la, lb])
               = Inr (if 0 < score (normalizeTrigramProfile sqrtf raw) la
                      then reported to_string (languageCode la)
                             (score (normalizeTrigramProfile sqrtf raw) la)
                      else ''---''))"
proof -
  let ?tp = "normalizeTrigramProfile sqrtf raw"
  have two: "fst (identifyLanguage sqrtf to_string txt [la, lb])
      = Inr (if 0 < score ?tp la then reported to_string (languageCode la) (score ?tp la)
             else ''---'')"
    if "score ?tp la = score ?tp lb"
    using irrefl unfolding identifyLanguage_eq [OF built] two_entries_tie [OF irrefl that]
    by simp
  have earliest: "fst (identifyLanguage sqrtf to_string txt ls)
      = Inr (reported to_string (languageCode entry) (score ?tp entry))"
    if "ls = before @ entry # after" and "0 < score ?tp entry"
      and "\<forall>x\<in>set ls. \<not> score ?tp entry < score ?tp x"
      and "\<forall>x\<in>set before. score ?tp x \<noteq> score ?tp entry"
    unfolding identifyLanguage_eq [OF built] first_best [OF irrefl trans total that]
    using that(2) by simp
  have gen: "(fst (identifyLanguage sqrtf to_string txt ls) = Inr ''---''
            \<and> (\<forall>lp\<in>set ls. \<not> 0 < score ?tp lp))
          \<or> (\<exists>pre lp post. ls = pre @ lp # post
               \<and> fst (identifyLanguage sqrtf to_string txt ls)
                   = Inr (reported to_string (languageCode lp) (score ?tp lp))
               \<and> 0 < score ?tp lp
               \<and> (\<forall>x\<in>set ls. \<not> score ?tp lp < score ?tp x)
               \<and> (\<forall>x\<in>set pre. score ?tp x \<noteq> score ?tp lp))"
    using best_invariant [OF irrefl trans, of ?tp ls]
  proof (elim disjE conjE exE)
    assume "foldl (best_step ?tp) (0, ''---'') ls = (0, ''---'')"
      and "\<forall>lp\<in>set ls. \<not> 0 < score ?tp lp"
    then have "fst (identifyLanguage sqrtf to_string txt ls) = Inr ''---''
        \<and> (\<forall>lp\<in>set ls. \<not> 0 < score ?tp lp)"
      using irrefl unfolding identifyLanguage_eq [OF built] by simp
    then show ?thesis by (rule disjI1)
  next
    fix pre lp post
    assume ls: "ls = pre @ lp # post"
      and st: "foldl (best_step ?tp) (0, ''---'') ls = (score ?tp lp, languageCode lp)"
      and pos: "0 < score ?tp lp"
      and mx: "\<forall>x\<in>set ls. \<not> score ?tp lp < score ?tp x"
      and first: "\<forall>x\<in>set pre. score ?tp x \<noteq> score ?tp lp"
    have "fst (identifyLanguage sqrtf to_string txt ls)
        = Inr (reported to_string (languageCode lp) (score ?tp lp))"
      unfolding identifyLanguage_eq [OF built] st using pos by simp
    with ls pos mx first have "\<exists>pre lp post. ls = pre @ lp # post
               \<and> fst (identifyLanguage sqrtf to_string txt ls)
                   = Inr (reported to_string (languageCode lp) (score ?tp lp))
               \<and> 0 < score ?tp lp
               \<and> (\<forall>x\<in>set ls. \<not> score ?tp lp < score ?tp x)
               \<and> (\<forall>x\<in>set pre. score ?tp x \<noteq> score ?tp lp)"
      by blast
    then show ?thesis by (rule disjI2)
  qed
  have E: "ls = before @ entry # after
           \<and> 0 < score ?tp entry
           \<and> (\<forall>x\<in>set ls. \<not> score ?tp entry < score ?tp x)
           \<and> (\<forall>x\<in>set before. score ?tp x \<noteq> score ?tp entry)
           \<longrightarrow> fst (identifyLanguage sqrtf to_string txt ls)
               = Inr (reported to_string (languageCode entry) (score ?tp entry))"
    by (intro impI, elim conjE, rule earliest)
  have T: "score ?tp la = score ?tp lb
           \<longrightarrow> fst (identifyLanguage sqrtf to_string txt [la, lb])
               = Inr (if 0 < score ?tp la
                      then reported to_string (languageCode la) (score ?tp la)
                      else ''---'')"
    by (intro impI, rule two)
  show ?thesis by (rule conjI [OF gen conjI [OF E T]])
qed

theorem C3_tie_break_witness:
  "score (normalizeTrigramProfile sqrt [(''abc'', 1 :: real)])
       \<lparr>languageCode = ''en'', trigramProfile = [(''abc'', 1)]\<rparr>
     = score (normalizeTrigramProfile sqrt [(''abc'', 1)])
         \<lparr>languageCode = ''fr'', trigramProfile = [(''abc'', 1)]\<rparr>
   \<and> fst (identifyLanguage sqrt (\<lambda>s. ''1.000000'') [''abc'']
        [\<lparr>languageCode = ''en'', trigramProfile = [(''abc'', 1 :: real)]\<rparr>,
         \<lparr>languageCode = ''fr'', trigramProfile = [(''abc'', 1)]\<rparr>])
     = Inr ''en (1.000000)''
   \<and> fst (identifyLanguage sqrt (\<lambda>s. ''1.000000'') [''abc'']
        [\<lparr>languageCode = ''de'', trigramProfile = [(''xyz'', 1 :: real)]\<rparr>,
         \<lparr>languageCode = ''en'', trigramProfile = [(''abc'', 1)]\<rparr>,
         \<lparr>languageCode = ''fr'', trigramProfile = [(''abc'', 1)]\<rparr>])
     = Inr ''en (1.000000)''"
  using C3_tie_break [OF real_less_irrefl real_less_trans real_less_total build_abc,
      where sqrtf = sqrt and to_string = "\<lambda>s. ''1.000000''"
        and ls = "[\<lparr>languageCode = ''de'', trigramProfile = [(''xyz'', 1)]\<rparr>,
                   \<lparr>languageCode = ''en'', trigramProfile = [(''abc'', 1)]\<rparr>,
                   \<lparr>languageCode = ''fr'', trigramProfile = [(''abc'', 1)]\<rparr>]"
        and before = "[\<lparr>languageCode = ''de'', trigramProfile = [(''xyz'', 1)]\<rparr>]"
        and entry = "\<lparr>languageCode = ''en'', trigramProfile = [(''abc'', 1)]\<rparr>"
        and after = "[\<lparr>languageCode = ''fr'', trigramProfile = [(''abc'', 1)]\<rparr>]"
        and la = "\<lparr>languageCode = ''en'', trigramProfile = [(''abc'', 1)]\<rparr>"
        and lb = "\<lparr>languageCode = ''fr'', trigramProfile = [(''abc'', 1)]\<rparr>"]
  by (simp add: normalize_abc score_abc_abc score_abc_xyz reported_def)

text \<open>
  The claim as stated fails when the two equal scores are 0: the text \<open>["abc"]\<close> scores
  0 against both entries of the catalog, and the result is the sentinel, not the code
  of the first entry.
\<close>

theorem C3_zero_tie_counterexample:
  "score (normalizeTrigramProfile sqrt [(''abc'', 1 :: real)])
       \<lparr>languageCode = ''en'', trigramProfile = [(''xyz'', 1)]\<rparr>
     = score (normalizeTrigramProfile sqrt [(''abc'', 1)])
         \<lparr>languageCode = ''fr'', trigramProfile = [(''xyz'', 1)]\<rparr>
   \<and> fst (identifyLanguage sqrt (\<lambda>s. ''1.000000'') [''abc'']
        [\<lparr>languageCode = ''en'', trigramProfile = [(''xyz'', 1 :: real)]\<rparr>,
         \<lparr>languageCode = ''fr'', trigramProfile = [(''xyz'', 1)]\<rparr>])
     = Inr ''---''"
  by (simp add: identifyLanguage_eq [OF build_abc] normalize_abc score_abc_xyz best_step_def)

subsection \<open>C4: the sentinel and the reported match\<close>

text \<open>
  C4, as the code has it. When \<open>buildTrigramProfile\<close> throws on the text,
  \<open>identifyLanguage\<close> throws the same error, whatever the catalog. When the profile of
  the text is built: if no entry of the catalog has a score above 0, the empty catalog
  included, \<open>identifyLanguage\<close> returns the sentinel \<open>"---"\<close> with nothing appended; if
  some entry has a score above 0, it returns the code of an entry whose score is above
  0 and below no other score, followed by that score in parentheses.
\<close>

theorem C4_sentinel_or_match:
  fixes sqrtf :: "'f::{zero,one,plus,times,inverse,ord} \<Rightarrow> 'f"
  assumes irrefl: "\<forall>x::'f. \<not> x < x"
    and trans: "\<forall>x y z::'f. x < y \<longrightarrow> y < z \<longrightarrow> x < z"
  shows "(case buildTrigramProfile txt of
            Inl e \<Rightarrow> identifyLanguage sqrtf to_string txt ls = (Inl e, ls)
          | Inr raw \<Rightarrow>
              ((\<forall>lp\<in>set ls. \<not> 0 < score (normalizeTrigramProfile sqrtf raw) lp)
                 \<longrightarrow> fst (identifyLanguage sqrtf to_string txt ls) = Inr ''---'')
              \<and> ((\<exists>lp\<in>set ls. 0 < score (normalizeTrigramProfile sqrtf raw) lp)
                 \<longrightarrow> (\<exists>lp\<in>set ls.
                       fst (identifyLanguage sqrtf to_string txt ls)
                         = Inr (reported to_string (languageCode lp)
                                  (score (normalizeTrigramProfile sqrtf raw) lp))
                       \<and> 0 < score (normalizeTrigramProfile sqrtf raw) lp
                       \<and> (\<forall>x\<in>set ls. \<not> score (normalizeTrigramProfile sqrtf raw) lp
                              < score (normalizeTrigramProfile sqrtf raw) x))))"
proof (cases "buildTrigramProfile txt :: error + 'f TrigramProfile")
  case (Inl e)
  then show ?thesis by (simp add: identifyLanguage_throws)
next
  case built: (Inr raw)
  let ?tp = "normalizeTrigramProfile sqrtf raw"
  have "((\<forall>lp\<in>set ls. \<not> 0 < score ?tp lp)
           \<longrightarrow> fst (identifyLanguage sqrtf to_string txt ls) = Inr ''---'')
       \<and> ((\<exists>lp\<in>set ls. 0 < score ?tp lp)
           \<longrightarrow> (\<exists>lp\<in>set ls.
                 fst (identifyLanguage sqrtf to_string txt ls)
                   = Inr (reported to_string (languageCode lp) (score ?tp lp))
                 \<and> 0 < score ?tp lp
                 \<and> (\<forall>x\<in>set ls. \<not> score ?tp lp < score ?tp x)))"
    using best_invariant [OF irrefl trans, of ?tp ls]
  proof (elim disjE conjE exE)
    assume "foldl (best_step ?tp) (0, ''---'') ls = (0, ''---'')"
      and "\<forall>lp\<in>set ls. \<not> 0 < score ?tp lp"
    then show ?thesis
      using irrefl unfolding identifyLanguage_eq [OF built] by simp
  next
    fix pre lp post
    assume ls: "ls = pre @ lp # post"
      and st: "foldl (best_step ?tp) (0, ''---'') ls = (score ?tp lp, languageCode lp)"
      and pos: "0 < score ?tp lp"
      and mx: "\<forall>x\<in>set ls. \<not> score ?tp lp < score ?tp x"
    have "lp \<in> set ls" using ls by simp
    moreover have "fst (identifyLanguage sqrtf to_string txt ls)
        = Inr (reported to_string (languageCode lp) (score ?tp lp))"
      unfolding identifyLanguage_eq [OF built] st using pos by simp
    ultimately show ?thesis using pos mx by blast
  qed
  with built show ?thesis by simp
qed

theorem C4_sentinel_or_match_witness:
  "fst (identifyLanguage sqrt (\<lambda>s. ''1.000000'') [''abc'']
        [\<lparr>languageCode = ''en'', trigramProfile = [(''xyz'', 1 :: real)]\<rparr>])
     = Inr ''---''
   \<and> fst (identifyLanguage sqrt (\<lambda>s. ''1.000000'') [''abc'']
        [\<lparr>languageCode = ''en'', trigramProfile = [(''xyz'', 1 :: real)]\<rparr>,
         \<lparr>languageCode = ''fr'', trigramProfile = [(''abc'', 1)]\<rparr>])
     = Inr ''fr (1.000000)''
   \<and> identifyLanguage sqrt (\<lambda>s. ''1.000000'') [''abc'', [CHR 0xFF]]
        [\<lparr>languageCode = ''fr'', trigramProfile = [(''abc'', 1 :: real)]\<rparr>]
     = (Inl RangeError, [\<lparr>languageCode = ''fr'', trigramProfile = [(''abc'', 1)]\<rparr>])"
  using C4_sentinel_or_match [OF real_less_irrefl real_less_trans,
      where sqrtf = sqrt and to_string = "\<lambda>s. ''1.000000''" and ?txt = "[''abc'']"
        and ls = "[\<lparr>languageCode = ''en'', trigramProfile = [(''xyz'', 1)]\<rparr>]"]
    C4_sentinel_or_match [OF real_less_irrefl real_less_trans,
      where sqrtf = sqrt and to_string = "\<lambda>s. ''1.000000''" and ?txt = "[''abc'']"
        and ls = "[\<lparr>languageCode = ''en'', trigramProfile = [(''xyz'', 1)]\<rparr>,
                   \<lparr>languageCode = ''fr'', trigramProfile = [(''abc'', 1)]\<rparr>]"]
    C4_sentinel_or_match [OF real_less_irrefl real_less_trans,
      where sqrtf = sqrt and to_string = "\<lambda>s. ''1.000000''"
        and ?txt = "[''abc'', [CHR 0xFF]]"
        and ls = "[\<lparr>languageCode = ''fr'', trigramProfile = [(''abc'', 1)]\<rparr>]"]
  by (simp add: build_abc build_abc_FF normalize_abc score_abc_abc score_abc_xyz reported_def)

text \<open>
  The claim as stated fails on a text that has a line that is not UTF-8: with the empty
  catalog no entry has a score above 0, and yet \<open>identifyLanguage\<close> does not return the
  sentinel, it throws.
\<close>

theorem C4_malformed_text_counterexample:
  "identifyLanguage sqrt (\<lambda>s. ''1.000000'') [[CHR 0xFF]] ([] :: real LanguageProfiles)
     = (Inl RangeError, [])"
  by (simp add: identifyLanguage_def build_FF)

subsection \<open>C6: the profile of zero weight\<close>

text \<open>
  C6. The empty profile is left as it is. A profile with the one value \<open>0.F\<close> is not
  left all-zero: its value becomes \<open>0.F / sqrtf(0.F + 0.F * 0.F)\<close>, a division of zero
  by the square root of zero that nothing guards, which is NaN in binary32.
\<close>

theorem C6_normalize_unguarded:
  "normalizeTrigramProfile sqrtf [] = []
   \<and> normalizeTrigramProfile sqrtf [(k, 0)] = [(k, 0 / sqrtf (0 + 0 * 0))]"
  by (simp add: normalizeTrigramProfile_def)

subsection \<open>C7: case folding\<close>




subsection \<open>C8: malformed text\<close>




subsection \<open>C9: the profiles and the catalog are only read\<close>

text \<open>
  C9. \<open>getCosineSimilarity\<close> leaves both profiles as they were: \<open>operator[]\<close> is only
  reached for a key that \<open>find\<close> has found, so it inserts nothing. \<open>identifyLanguage\<close>
  leaves the catalog as it was, whether it returns or throws: its loop works on copies
  of the entries.
\<close>

theorem C9_read_only:
  "snd (getCosineSimilarity textProfile languageProfile) = (textProfile, languageProfile)
   \<and> snd (identifyLanguage sqrtf to_string txt languages) = languages"
  by (simp add: getCosineSimilarity_eq identifyLanguage_def split: sum.splits prod.splits)

subsection \<open>C10: addLanguage\<close>

text \<open>
  C10, as the code has it. \<open>addLanguage\<close> returns false without calling \<open>writeCSV\<close> when
  the text is not read or the profile of the corpus is empty; it throws, without calling
  \<open>writeCSV\<close>, when the profile cannot be built; otherwise it calls \<open>writeCSV\<close> once, for
  the file \<open>"resources/trigrams/gua.csv"\<close> whatever the path, with one row per trigram
  that holds the trigram and its count cast to \<open>int\<close>, and returns what \<open>writeCSV\<close>
  returns. So it returns true only when the text was read, the profile is not empty and
  \<open>writeCSV\<close> succeeded.
\<close>

theorem C10_addLanguage:
  "(case getTextFromFile path of
      (False, corpus) \<Rightarrow>
        addLanguage getTextFromFile writeCSV int_of_float path = (Inr False, [])
    | (True, corpus) \<Rightarrow>
        (case buildTrigramProfile corpus :: error + 'f::{zero,one,plus} TrigramProfile of
           Inl e \<Rightarrow> addLanguage getTextFromFile writeCSV int_of_float path = (Inl e, [])
         | Inr p \<Rightarrow>
             if p = [] then
               addLanguage getTextFromFile writeCSV int_of_float path = (Inr False, [])
             else
               addLanguage getTextFromFile writeCSV int_of_float path
                 = (Inr (writeCSV ''resources/trigrams/gua.csv'' (csv_rows int_of_float p)),
                    [(''resources/trigrams/gua.csv'', csv_rows int_of_float p)])))
   \<and> (fst (addLanguage getTextFromFile writeCSV (int_of_float :: 'f \<Rightarrow> int) path) = Inr True
        \<longrightarrow> (\<exists>corpus p. getTextFromFile path = (True, corpus)
              \<and> buildTrigramProfile corpus = Inr p \<and> p \<noteq> []
              \<and> writeCSV ''resources/trigrams/gua.csv'' (csv_rows int_of_float p)))
   \<and> (\<forall>q :: 'f TrigramProfile. length (csv_rows int_of_float q) = length q
        \<and> (\<forall>n<length q. csv_rows int_of_float q ! n
              = [fst (q ! n), to_string_int (int_of_float (snd (q ! n)))]))"
proof -
  obtain ok corpus where g: "getTextFromFile path = (ok, corpus)"
    by (cases "getTextFromFile path")
  have rows: "length (csv_rows int_of_float q) = length q
        \<and> (\<forall>n<length q. csv_rows int_of_float q ! n
              = [fst (q ! n), to_string_int (int_of_float (snd (q ! n)))])"
    for q :: "'f TrigramProfile"
    by (simp add: csv_rows_nth) (simp add: csv_rows_def)
  show ?thesis
  proof (cases ok)
    case False
    with g rows show ?thesis by (simp add: addLanguage_eq)
  next
    case True
    show ?thesis
    proof (cases "buildTrigramProfile corpus :: error + 'f TrigramProfile")
      case (Inl e)
      with g True rows show ?thesis by (simp add: addLanguage_eq)
    next
      case (Inr p)
      with g True rows show ?thesis by (simp add: addLanguage_eq)
    qed
  qed
qed

theorem C10_addLanguage_witness:
  "addLanguage (\<lambda>p. (True, [''abc''])) (\<lambda>p rows. True) (\<lambda>x::real. \<lfloor>x\<rfloor>) ''corpus.txt''
     = (Inr True, [(''resources/trigrams/gua.csv'', [[''abc'', ''1'']])])
   \<and> addLanguage (\<lambda>p. (True, [''abc''])) (\<lambda>p rows. False) (\<lambda>x::real. \<lfloor>x\<rfloor>) ''corpus.txt''
     = (Inr False, [(''resources/trigrams/gua.csv'', [[''abc'', ''1'']])])
   \<and> addLanguage (\<lambda>p. (True, [''ab''])) (\<lambda>p rows. True) (\<lambda>x::real. \<lfloor>x\<rfloor>) ''corpus.txt''
     = (Inr False, [])
   \<and> addLanguage (\<lambda>p. (False, [])) (\<lambda>p rows. True) (\<lambda>x::real. \<lfloor>x\<rfloor>) ''corpus.txt''
     = (Inr False, [])"
  using C10_addLanguage [where getTextFromFile = "\<lambda>p. (True, [''abc''])"
      and writeCSV = "\<lambda>p rows. True" and int_of_float = "\<lambda>x::real. \<lfloor>x\<rfloor>"
      and path = "''corpus.txt''"]
    C10_addLanguage [where getTextFromFile = "\<lambda>p. (True, [''abc''])"
      and writeCSV = "\<lambda>p rows. False" and int_of_float = "\<lambda>x::real. \<lfloor>x\<rfloor>"
      and path = "''corpus.txt''"]
    C10_addLanguage [where getTextFromFile = "\<lambda>p. (True, [''ab''])"
      and writeCSV = "\<lambda>p rows. True" and int_of_float = "\<lambda>x::real. \<lfloor>x\<rfloor>"
      and path = "''corpus.txt''"]
    C10_addLanguage [where getTextFromFile = "\<lambda>p. (False, [])"
      and writeCSV = "\<lambda>p rows. True" and int_of_float = "\<lambda>x::real. \<lfloor>x\<rfloor>"
      and path = "''corpus.txt''"]
  by (simp add: build_abc build_ab csv_rows_def to_string_int_def digits_1)

text \<open>
  The claim as stated fails on a corpus with a line that is not UTF-8: \<open>addLanguage\<close>
  does not return false, it throws.
\<close>

theorem C10_decode_failure_counterexample:
  "addLanguage (\<lambda>p. (True, [[CHR 0xFF]])) (\<lambda>p rows. True) (\<lambda>x::real. \<lfloor>x\<rfloor>) ''corpus.txt''
     = (Inl RangeError, [])"
  by (simp add: addLanguage_def buildLanguageProfile_def build_FF)

end
